theory Spec2Isabelle
  imports Complex_Main
begin

section \<open>Values\<close>

text \<open>
  Python's \<open>float\<close> is IEEE binary64. Every finite binary64 value is a real number, and
  comparing two finite values compares those reals; the model keeps the finite values as
  reals (rounding of sums, quotients and products is not modelled) and adds the three
  special values that division can produce. Signed zeros are not distinguished.
\<close>

datatype fl = Fin real | PInf | NInf | NaN

text \<open>\<open>int(x)\<close> on a float truncates toward zero.\<close>

definition py_int :: "real \<Rightarrow> int" where
  "py_int x = (if 0 \<le> x then \<lfloor>x\<rfloor> else \<lceil>x\<rceil>)"

section \<open>Adaptive window sizing (\<open>calculate_ehr999\<close>, lines 106--121)\<close>

definition ma_window :: "int \<Rightarrow> int" where
  "ma_window data_length =
     (if data_length < 200 then min 50 (data_length div 4) else 200)"

definition max_long_window :: "int \<Rightarrow> int" where
  "max_long_window data_length = py_int (real_of_int data_length * 0.6)"

text \<open>
  Only here a float is turned into an integer, so the rounding of the product matters.
  In binary64 the factors are \<open>n\<close> itself and \<open>0.6 = m_06 / 2^53\<close>, and the product is
  their exact product rounded to 53 significant bits, ties to even; \<open>int_times_06\<close> is
  that computation. For every length below \<open>2^31\<close> it agrees with the truncated exact
  product used in \<open>max_long_window\<close> (lemma \<open>int_times_06_eq\<close>).
\<close>

fun bit_length :: "nat \<Rightarrow> nat" where
  "bit_length n = (if n = 0 then 0 else Suc (bit_length (n div 2)))"

definition round_to :: "nat \<Rightarrow> nat \<Rightarrow> nat" where
  "round_to s x =
     (let q = x div 2 ^ s; r = x mod 2 ^ s
      in if 2 * r < 2 ^ s \<or> (2 * r = 2 ^ s \<and> even q) then q * 2 ^ s else (q + 1) * 2 ^ s)"

definition round53 :: "nat \<Rightarrow> nat" where
  "round53 x = round_to (bit_length x - 53) x"

definition m_06 :: nat where
  "m_06 = 5404319552844595"

definition int_times_06 :: "nat \<Rightarrow> int" where
  "int_times_06 n = int (round53 (n * m_06) div 2 ^ 53)"

definition long_window :: "int \<Rightarrow> int \<Rightarrow> int" where
  "long_window mw data_length =
     (let lw = min (mw * 7) (max_long_window data_length)
      in if lw < mw + 50 then min (mw + 50) (data_length - 10) else lw)"

section \<open>Comparison and arithmetic on float values\<close>

text \<open>
  IEEE comparisons: every comparison with \<open>NaN\<close> is false. Division and multiplication
  are those of numpy on float64 columns, which never raise: a quotient by zero is an
  infinity, or \<open>NaN\<close> when the numerator is zero as well.
\<close>

fun fl_less :: "fl \<Rightarrow> fl \<Rightarrow> bool" where
  "fl_less (Fin a) (Fin b) = (a < b)"
| "fl_less (Fin a) PInf = True"
| "fl_less NInf (Fin b) = True"
| "fl_less NInf PInf = True"
| "fl_less _ _ = False"

fun fl_le :: "fl \<Rightarrow> fl \<Rightarrow> bool" where
  "fl_le (Fin a) (Fin b) = (a \<le> b)"
| "fl_le (Fin a) PInf = True"
| "fl_le NInf (Fin b) = True"
| "fl_le NInf PInf = True"
| "fl_le PInf PInf = True"
| "fl_le NInf NInf = True"
| "fl_le _ _ = False"

fun fl_div :: "fl \<Rightarrow> fl \<Rightarrow> fl" where
  "fl_div (Fin a) (Fin b) =
     (if b = 0 then (if a = 0 then NaN else if 0 < a then PInf else NInf) else Fin (a / b))"
| "fl_div (Fin a) PInf = Fin 0"
| "fl_div (Fin a) NInf = Fin 0"
| "fl_div PInf (Fin b) = (if 0 \<le> b then PInf else NInf)"
| "fl_div NInf (Fin b) = (if 0 \<le> b then NInf else PInf)"
| "fl_div _ _ = NaN"

fun fl_mul :: "fl \<Rightarrow> fl \<Rightarrow> fl" where
  "fl_mul (Fin a) (Fin b) = Fin (a * b)"
| "fl_mul PInf (Fin b) = (if b = 0 then NaN else if 0 < b then PInf else NInf)"
| "fl_mul NInf (Fin b) = (if b = 0 then NaN else if 0 < b then NInf else PInf)"
| "fl_mul (Fin a) PInf = (if a = 0 then NaN else if 0 < a then PInf else NInf)"
| "fl_mul (Fin a) NInf = (if a = 0 then NaN else if 0 < a then NInf else PInf)"
| "fl_mul PInf PInf = PInf"
| "fl_mul NInf NInf = PInf"
| "fl_mul PInf NInf = NInf"
| "fl_mul NInf PInf = NInf"
| "fl_mul _ _ = NaN"

text \<open>\<open>pd.notna\<close> and \<open>dropna\<close> test for \<open>NaN\<close> only; an infinity is not missing.\<close>

definition notna :: "fl \<Rightarrow> bool" where
  "notna v = (v \<noteq> NaN)"


section \<open>Market bands (\<open>generate_html_chart\<close>, lines 168--208 and 384--432)\<close>

text \<open>
  The seven bands, named after the style classes of their badges in the strategy table
  (\<open>status-diamond\<close>, ..., \<open>status-escape\<close>). The threshold literals are binary64
  values; \<open>0.73\<close> and \<open>1.20\<close> are not dyadic, so their exact values are written out.
  Both the header chain and the table use the same literals.
\<close>

datatype band = Diamond | Gold | Normal | Stop | Reduce | Clear | Escape

definition t_073 :: real where "t_073 = 1643813863990231 / 2251799813685248"
definition t_120 :: real where "t_120 = 5404319552844595 / 4503599627370496"
definition t_150 :: real where "t_150 = 3 / 2"
definition t_30 :: real where "t_30 = 3"
definition t_45 :: real where "t_45 = 9 / 2"
definition t_65 :: real where "t_65 = 13 / 2"

record header =
  invest_multiplier :: string
  market_status :: band
  status_color :: string

text \<open>
  The \<open>if\<close>/\<open>elif\<close> chain of the report header. The multiplier texts that are not ASCII
  in the source are given in translation.
\<close>

definition header_status :: "fl \<Rightarrow> header" where
  "header_status latest_ehr999 =
     (if fl_less latest_ehr999 (Fin t_073) then
        \<lparr>invest_multiplier = ''2.0x ~ 3.0x'', market_status = Diamond, status_color = ''#00c853''\<rparr>
      else if fl_less latest_ehr999 (Fin t_120) then
        \<lparr>invest_multiplier = ''1.5x'', market_status = Gold, status_color = ''#ffd600''\<rparr>
      else if fl_less latest_ehr999 (Fin t_150) then
        \<lparr>invest_multiplier = ''1.0x'', market_status = Normal, status_color = ''#2196f3''\<rparr>
      else if fl_less latest_ehr999 (Fin t_30) then
        \<lparr>invest_multiplier = ''0x (stop)'', market_status = Stop, status_color = ''#9e9e9e''\<rparr>
      else if fl_less latest_ehr999 (Fin t_45) then
        \<lparr>invest_multiplier = ''reduce'', market_status = Reduce, status_color = ''#ff9800''\<rparr>
      else if fl_less latest_ehr999 (Fin t_65) then
        \<lparr>invest_multiplier = ''clear 50-80%'', market_status = Clear, status_color = ''#ff5722''\<rparr>
      else
        \<lparr>invest_multiplier = ''sell all'', market_status = Escape, status_color = ''#d50000''\<rparr>)"

text \<open>
  The seven rows of the strategy table, in document order: whether the row carries the
  class \<open>current-row\<close>, the band of its badge, and the badge's background colour from the
  style sheet.
\<close>

definition strategy_rows :: "fl \<Rightarrow> (bool \<times> band \<times> string) list" where
  "strategy_rows latest_ehr999 =
     [(fl_less latest_ehr999 (Fin t_073), Diamond, ''#00c853''),
      (fl_le (Fin t_073) latest_ehr999 \<and> fl_less latest_ehr999 (Fin t_120), Gold, ''#ffd600''),
      (fl_le (Fin t_120) latest_ehr999 \<and> fl_less latest_ehr999 (Fin t_150), Normal, ''#2196f3''),
      (fl_le (Fin t_150) latest_ehr999 \<and> fl_less latest_ehr999 (Fin t_30), Stop, ''#9e9e9e''),
      (fl_le (Fin t_30) latest_ehr999 \<and> fl_less latest_ehr999 (Fin t_45), Reduce, ''#ff9800''),
      (fl_le (Fin t_45) latest_ehr999 \<and> fl_less latest_ehr999 (Fin t_65), Clear, ''#ff5722''),
      (fl_le (Fin t_65) latest_ehr999, Escape, ''#d50000'')]"

definition current_rows :: "fl \<Rightarrow> (bool \<times> band \<times> string) list" where
  "current_rows latest_ehr999 = filter fst (strategy_rows latest_ehr999)"

text \<open>
  The band table as the specification words it: seven disjoint half-open intervals over
  \<open>[0, +\<infinity>)\<close>, bounded by the thresholds of \<open>market_levels\<close>; the top band has no upper
  bound.
\<close>

fun spec_band_lower :: "band \<Rightarrow> real" where
  "spec_band_lower Diamond = 0"
| "spec_band_lower Gold = t_073"
| "spec_band_lower Normal = t_120"
| "spec_band_lower Stop = t_150"
| "spec_band_lower Reduce = t_30"
| "spec_band_lower Clear = t_45"
| "spec_band_lower Escape = t_65"

fun spec_band_upper :: "band \<Rightarrow> real option" where
  "spec_band_upper Diamond = Some t_073"
| "spec_band_upper Gold = Some t_120"
| "spec_band_upper Normal = Some t_150"
| "spec_band_upper Stop = Some t_30"
| "spec_band_upper Reduce = Some t_45"
| "spec_band_upper Clear = Some t_65"
| "spec_band_upper Escape = None"

definition spec_in_band :: "real \<Rightarrow> band \<Rightarrow> bool" where
  "spec_in_band v b =
     (spec_band_lower b \<le> v \<and> (case spec_band_upper b of None \<Rightarrow> True | Some u \<Rightarrow> v < u))"

section \<open>Rows, frames and errors\<close>

text \<open>
  One row of the upstream response, with its twelve fields in the order of the column
  list of \<open>fetch_eth_klines\<close>. \<open>open_time\<close> is in milliseconds since the epoch;
  \<open>pd.to_datetime(..., unit='ms')\<close> is one-to-one on it, so the model keeps the integer.
  The five price and volume fields are kept as the numbers their text denotes
  (\<open>astype(float)\<close>), which are taken to be finite. Rows are taken to be well formed,
  so that both conversions succeed.
\<close>

record kline =
  open_time :: int
  open_price :: real
  high :: real
  low :: real
  close :: real
  volume :: real
  close_time :: int
  quote_volume :: string
  trades :: int
  taker_buy_base :: string
  taker_buy_quote :: string
  ignore :: string

datatype error = RequestError | ValueError | KeyError | IndexError

text \<open>
  A DataFrame: the row labels, the twelve source columns row by row, and the three
  columns that \<open>calculate_ehr999\<close> adds, absent (\<open>None\<close>) until they are assigned.
\<close>

record frame =
  index :: "nat list"
  klines :: "kline list"
  MA200 :: "fl list option"
  MA_long :: "fl list option"
  EHR999 :: "fl list option"

definition len :: "frame \<Rightarrow> nat" where
  "len df = length (index df)"

definition DataFrame :: "kline list \<Rightarrow> frame" where
  "DataFrame all_data =
     \<lparr>index = [0..<length all_data], klines = all_data,
      MA200 = None, MA_long = None, EHR999 = None\<rparr>"

text \<open>Boolean-mask selection of rows, applied to the labels and to every column.\<close>

definition select :: "bool list \<Rightarrow> 'a list \<Rightarrow> 'a list" where
  "select keep xs = map snd (filter fst (zip keep xs))"

definition select_rows :: "bool list \<Rightarrow> frame \<Rightarrow> frame" where
  "select_rows keep df =
     \<lparr>index = select keep (index df), klines = select keep (klines df),
      MA200 = map_option (select keep) (MA200 df),
      MA_long = map_option (select keep) (MA_long df),
      EHR999 = map_option (select keep) (EHR999 df)\<rparr>"

text \<open>
  \<open>duplicated\<close> with the default \<open>keep='first'\<close>: a row is a duplicate when its key has
  been seen in an earlier row.
\<close>

fun duplicated_from :: "int list \<Rightarrow> int list \<Rightarrow> bool list" where
  "duplicated_from seen [] = []"
| "duplicated_from seen (k # ks) = (k \<in> set seen) # duplicated_from (k # seen) ks"

definition duplicated :: "int list \<Rightarrow> bool list" where
  "duplicated ks = duplicated_from [] ks"

definition drop_duplicates :: "frame \<Rightarrow> frame" where
  "drop_duplicates df =
     select_rows (map Not (duplicated (map open_time (klines df)))) df"

definition reset_index :: "frame \<Rightarrow> frame" where
  "reset_index df = df\<lparr>index := [0..<length (klines df)]\<rparr>"

section \<open>Series Acquirer (\<open>fetch_eth_klines\<close>)\<close>

text \<open>
  The upstream source answers a request for the bars from \<open>startTime\<close> on with a page of
  rows, or the request fails: \<open>requests.get\<close>, \<open>raise_for_status\<close> or \<open>response.json\<close>
  raises. Symbol, interval and page limit are the same in every request.
\<close>

type_synonym upstream = "int \<Rightarrow> error + kline list"

text \<open>\<open>datetime(2017, 8, 17)\<close> in milliseconds, the local time zone taken to be UTC.\<close>

definition inception :: int where
  "inception = 1502928000000"

text \<open>
  The \<open>while True\<close> loop. It ends on an empty page, on a page of fewer than 1000 rows, or
  on the first failing request; it need not end at all, and then the result is \<open>None\<close>.
\<close>

partial_function (option) fetch_loop ::
  "upstream \<Rightarrow> int \<Rightarrow> kline list \<Rightarrow> (error + kline list) option" where
  "fetch_loop api start_time all_data =
     (case api start_time of
        Inl e \<Rightarrow> Some (Inl e)
      | Inr data \<Rightarrow>
          if data = [] then Some (Inr all_data)
          else if length data < 1000 then Some (Inr (all_data @ data))
          else fetch_loop api (open_time (last data) + 1) (all_data @ data))"

text \<open>
  The result is \<open>Some None\<close> for the returned sentinel \<open>None\<close> (an exception caught by the
  handler, or no data at all) and \<open>Some (Some df)\<close> for a returned frame.
\<close>

definition fetch_eth_klines :: "upstream \<Rightarrow> frame option option" where
  "fetch_eth_klines api =
     (case fetch_loop api inception [] of
        None \<Rightarrow> None
      | Some (Inl e) \<Rightarrow> Some None
      | Some (Inr all_data) \<Rightarrow>
          if all_data = [] then Some None
          else Some (Some (reset_index (drop_duplicates (DataFrame all_data)))))"

section \<open>Indicator Engine (\<open>calculate_ehr999\<close>)\<close>

text \<open>
  \<open>rolling(window=w).mean()\<close> with the default \<open>min_periods = w\<close>: a negative window is
  rejected with \<open>ValueError\<close> when the rolling object is built; the mean at position \<open>i\<close>
  is defined once \<open>w\<close> observations are in the trailing window and \<open>w > 0\<close>, and \<open>NaN\<close>
  before.
\<close>

definition trailing_mean :: "nat \<Rightarrow> real list \<Rightarrow> nat \<Rightarrow> fl" where
  "trailing_mean w xs i =
     (if w = 0 \<or> i + 1 < w then NaN
      else Fin (sum_list (take w (drop (i + 1 - w) xs)) / real w))"

definition rolling_mean :: "int \<Rightarrow> real list \<Rightarrow> error + fl list" where
  "rolling_mean window xs =
     (if window < 0 then Inl ValueError
      else Inr (map (trailing_mean (nat window) xs) [0..<length xs]))"

definition close_column :: "frame \<Rightarrow> real list" where
  "close_column df = map close (klines df)"

definition set_MA200 :: "int \<Rightarrow> frame \<Rightarrow> error + frame" where
  "set_MA200 mw df =
     (case rolling_mean mw (close_column df) of
        Inl e \<Rightarrow> Inl e
      | Inr c \<Rightarrow> Inr (df\<lparr>MA200 := Some c\<rparr>))"

definition set_MA_long :: "int \<Rightarrow> frame \<Rightarrow> error + frame" where
  "set_MA_long lw df =
     (case rolling_mean lw (close_column df) of
        Inl e \<Rightarrow> Inl e
      | Inr c \<Rightarrow> Inr (df\<lparr>MA_long := Some c\<rparr>))"

definition ehr999_column :: "real list \<Rightarrow> fl list \<Rightarrow> fl list \<Rightarrow> fl list" where
  "ehr999_column cl m200 mlong =
     map2 fl_mul (map2 fl_div (map Fin cl) m200) (map2 fl_div (map Fin cl) mlong)"

definition set_EHR999 :: "frame \<Rightarrow> error + frame" where
  "set_EHR999 df =
     (case MA200 df of
        None \<Rightarrow> Inl KeyError
      | Some m200 \<Rightarrow>
          (case MA_long df of
             None \<Rightarrow> Inl KeyError
           | Some mlong \<Rightarrow>
               Inr (df\<lparr>EHR999 := Some (ehr999_column (close_column df) m200 mlong)\<rparr>)))"

definition dropna :: "frame \<Rightarrow> error + frame" where
  "dropna df =
     (case EHR999 df of
        None \<Rightarrow> Inl KeyError
      | Some c \<Rightarrow> Inr (select_rows (map notna c) df))"

text \<open>
  Frames are objects: a name holds a reference into a store of frames, \<open>df.copy()\<close> and
  \<open>dropna\<close> make new objects, and a column assignment changes the object it is applied
  to. A procedure maps the store to the new store and either an exception or a result.
\<close>

type_synonym store = "frame list"

type_synonym 'a proc = "store \<Rightarrow> store \<times> (error + 'a)"

definition bindS :: "'a proc \<Rightarrow> ('a \<Rightarrow> 'b proc) \<Rightarrow> 'b proc" where
  "bindS m f = (\<lambda>s. case m s of (s', Inl e) \<Rightarrow> (s', Inl e) | (s', Inr x) \<Rightarrow> f x s')"

definition raiseS :: "error \<Rightarrow> 'a proc" where
  "raiseS e = (\<lambda>s. (s, Inl e))"

definition new_frame :: "frame \<Rightarrow> nat proc" where
  "new_frame df = (\<lambda>s. (s @ [df], Inr (length s)))"

definition read_frame :: "nat \<Rightarrow> frame proc" where
  "read_frame a = (\<lambda>s. (s, Inr (s ! a)))"

definition copy :: "nat \<Rightarrow> nat proc" where
  "copy a = bindS (read_frame a) new_frame"

definition assign :: "nat \<Rightarrow> (frame \<Rightarrow> error + frame) \<Rightarrow> unit proc" where
  "assign a upd =
     (\<lambda>s. case upd (s ! a) of Inl e \<Rightarrow> (s, Inl e) | Inr df \<Rightarrow> (s[a := df], Inr ()))"

definition calculate_ehr999 :: "nat \<Rightarrow> nat proc" where
  "calculate_ehr999 a =
     bindS (copy a) (\<lambda>df.
     bindS (read_frame df) (\<lambda>f0.
       let data_length = int (len f0); mw = ma_window data_length in
     bindS (assign df (set_MA200 mw)) (\<lambda>_.
     bindS (read_frame df) (\<lambda>f1.
       let lw = long_window mw (int (len f1)) in
     bindS (assign df (set_MA_long lw)) (\<lambda>_.
     bindS (assign df set_EHR999) (\<lambda>_.
     bindS (read_frame df) (\<lambda>f2.
       case dropna f2 of Inl e \<Rightarrow> raiseS e | Inr f3 \<Rightarrow> new_frame f3)))))))"

section \<open>Report Emitter (\<open>generate_html_chart\<close>) and the program\<close>

text \<open>
  What the report shows of the data: the chart points, the header and the strategy
  table. The static markup of the template is not modelled. The console receives the
  messages of the main program and of the emitter; the progress messages of the other
  two functions are left out.
\<close>

record report =
  ehr999_data :: "(int \<times> fl) list"
  latest_ehr999 :: fl
  latest_price :: real
  report_header :: header
  table_rows :: "(bool \<times> band \<times> string) list"

datatype msg =
  MsgStart | MsgEmptyData | MsgChartWritten | MsgTrend | MsgLatest | MsgDone | MsgFetchFailed

record world =
  files :: "string \<rightharpoonup> report"
  console :: "msg list"

definition print :: "msg \<Rightarrow> world \<Rightarrow> world" where
  "print m w = w\<lparr>console := console w @ [m]\<rparr>"

text \<open>
  \<open>int(row['open_time'].timestamp())\<close> is the epoch time in whole seconds.
\<close>

definition chart_points :: "kline list \<Rightarrow> fl list \<Rightarrow> (int \<times> fl) list" where
  "chart_points ks c =
     map (\<lambda>(k, v). (py_int (real_of_int (open_time k) / 1000), v))
         (filter (\<lambda>(k, v). notna v) (zip ks c))"

definition generate_html_chart :: "frame option \<Rightarrow> world \<Rightarrow> world \<times> (error + string option)" where
  "generate_html_chart df w =
     (case df of
        None \<Rightarrow> (print MsgEmptyData w, Inr None)
      | Some f \<Rightarrow>
          if index f = [] then (print MsgEmptyData w, Inr None)
          else
            (case EHR999 f of
               None \<Rightarrow> (w, Inl KeyError)
             | Some c \<Rightarrow>
                 if c = [] \<or> klines f = [] then (w, Inl IndexError)
                 else
                 let r = \<lparr>ehr999_data = chart_points (klines f) c,
                          latest_ehr999 = last c,
                          latest_price = last (close_column f),
                          report_header = header_status (last c),
                          table_rows = strategy_rows (last c)\<rparr>
                 in (print MsgChartWritten (w\<lparr>files := (files w)(''index.html'' \<mapsto> r)\<rparr>),
                     Inr (Some ''index.html''))))"

text \<open>
  The main program. The result is \<open>None\<close> when the acquisition never ends; otherwise the
  world after the run and the exception that ended it, if any. An exception of
  \<open>calculate_ehr999\<close> is not caught, and \<open>iloc[-1]\<close> on an empty frame raises
  \<open>IndexError\<close>.
\<close>

definition main :: "upstream \<Rightarrow> world \<Rightarrow> (world \<times> error option) option" where
  "main api w0 =
     (let w1 = print MsgStart w0 in
      case fetch_eth_klines api of
        None \<Rightarrow> None
      | Some None \<Rightarrow> Some (print MsgFetchFailed w1, None)
      | Some (Some df0) \<Rightarrow>
          (case calculate_ehr999 0 [df0] of
             (s, Inl e) \<Rightarrow> Some (w1, Some e)
           | (s, Inr a) \<Rightarrow>
               let df = s ! a; w2 = print MsgTrend w1 in
               if index df = [] then Some (w2, Some IndexError)
               else
                 (case generate_html_chart (Some df) (print MsgLatest w2) of
                    (w3, Inl e) \<Rightarrow> Some (w3, Some e)
                  | (w3, Inr _) \<Rightarrow> Some (print MsgDone w3, None))))"

section \<open>Auxiliary notions and example inputs\<close>

text \<open>
  The rows that survive \<open>drop_duplicates\<close>, as a function of the keys seen before.
\<close>

definition first_rows :: "int list \<Rightarrow> kline list \<Rightarrow> kline list" where
  "first_rows seen rs = select (map Not (duplicated_from seen (map open_time rs))) rs"

text \<open>
  The run of the loop, request by request: \<open>request_cursor api s k\<close> is the \<open>startTime\<close> of
  request number \<open>k\<close> (counted from 0) of a loop that starts at \<open>s\<close>, if the loop gets
  that far. Used to say which requests the loop makes.
\<close>

fun request_cursor :: "upstream \<Rightarrow> int \<Rightarrow> nat \<Rightarrow> int option" where
  "request_cursor api s 0 = Some s"
| "request_cursor api s (Suc k) =
     (case api s of
        Inl e \<Rightarrow> None
      | Inr data \<Rightarrow>
          if data = [] \<or> length data < 1000 then None
          else request_cursor api (open_time (last data) + 1) k)"

text \<open>A daily bar that opens at \<open>t\<close> and closes at price \<open>c\<close>.\<close>

definition bar :: "int \<Rightarrow> real \<Rightarrow> kline" where
  "bar t c =
     \<lparr>open_time = t, open_price = c, high = c, low = c, close = c, volume = 1,
      close_time = t + 86399999, quote_volume = ''0'', trades = 1,
      taker_buy_base = ''0'', taker_buy_quote = ''0'', ignore = ''0''\<rparr>"

definition day :: "nat \<Rightarrow> int" where
  "day i = inception + 86400000 * int i"


text \<open>
  An upstream with two pages: a full first page of 1000 daily bars, and a second page
  that repeats the last day of the first with another price.
\<close>

definition page1 :: "kline list" where
  "page1 = map (\<lambda>i. bar (day i) 100) [0..<1000]"



text \<open>An upstream that serves the full first page and fails on every later request.\<close>

definition failing_api :: upstream where
  "failing_api =
     (\<lambda>start_time. if start_time = inception then Inr page1 else Inl RequestError)"

text \<open>
  The frames that \<open>calculate_ehr999\<close> builds from an input frame, column by column, and
  the long window it uses.
\<close>

definition with_MA200 :: "frame \<Rightarrow> frame" where
  "with_MA200 f =
     f\<lparr>MA200 := Some (map (trailing_mean (nat (ma_window (int (len f)))) (close_column f))
                        [0..<length (klines f)])\<rparr>"

definition lw_of :: "frame \<Rightarrow> int" where
  "lw_of f = long_window (ma_window (int (len f))) (int (len f))"

definition with_MA_long :: "frame \<Rightarrow> frame" where
  "with_MA_long f =
     (with_MA200 f)\<lparr>MA_long := Some (map (trailing_mean (nat (lw_of f)) (close_column f))
                        [0..<length (klines f)])\<rparr>"

definition ehr_values :: "frame \<Rightarrow> fl list" where
  "ehr_values f =
     ehr999_column (close_column f)
       (map (trailing_mean (nat (ma_window (int (len f)))) (close_column f)) [0..<length (klines f)])
       (map (trailing_mean (nat (lw_of f)) (close_column f)) [0..<length (klines f)])"

definition with_EHR999 :: "frame \<Rightarrow> frame" where
  "with_EHR999 f = (with_MA_long f)\<lparr>EHR999 := Some (ehr_values f)\<rparr>"

text \<open>Example series: five bars, twelve bars that start at price zero, and 250 bars at
  one price.\<close>

definition five_bars :: frame where
  "five_bars = DataFrame (map (\<lambda>i. bar (day i) 100) [0..<5])"

definition five_bar_api :: upstream where
  "five_bar_api = (\<lambda>start_time. Inr (map (\<lambda>i. bar (day i) 100) [0..<5]))"



definition constant_bars :: "kline list" where
  "constant_bars = map (\<lambda>i. bar (day i) 2000) [0..<250]"

section \<open>Properties of the window sizing\<close>

lemma max_long_window_div: "0 \<le> n \<Longrightarrow> max_long_window n = (3 * n) div 5"
proof -
  assume n: "0 \<le> n"
  have "real_of_int n * 0.6 = real_of_int (3 * n) / real_of_int 5"
    by simp
  then have "\<lfloor>real_of_int n * 0.6\<rfloor> = (3 * n) div 5"
    by (simp only: floor_divide_of_int_eq)
  with n show ?thesis
    by (simp add: max_long_window_def py_int_def)
qed

subsection \<open>The product in binary64\<close>

declare bit_length.simps [simp del]

lemma bit_length_upper: "x < 2 ^ bit_length x"
proof (induction x rule: bit_length.induct)
  case (1 n)
  show ?case
  proof (cases "n = 0")
    case True
    then show ?thesis by (simp add: bit_length.simps)
  next
    case False
    with 1 have "n div 2 < 2 ^ bit_length (n div 2)" by simp
    then have "n < 2 * 2 ^ bit_length (n div 2)" by linarith
    with False show ?thesis by (simp add: bit_length.simps [of n])
  qed
qed

lemma bit_length_le: "x < 2 ^ k \<Longrightarrow> bit_length x \<le> k"
proof (induction x arbitrary: k rule: bit_length.induct)
  case (1 n)
  show ?case
  proof (cases "n = 0")
    case True
    then show ?thesis by (simp add: bit_length.simps)
  next
    case False
    with 1(2) obtain j where k: "k = Suc j" by (cases k) auto
    with 1(2) have "n div 2 < 2 ^ j" by auto
    with 1(1) [OF False] have "bit_length (n div 2) \<le> j" by simp
    with False k show ?thesis by (simp add: bit_length.simps [of n])
  qed
qed

lemma round_to_lower: "a * 2 ^ s \<le> x \<Longrightarrow> a * 2 ^ s \<le> round_to s x"
proof -
  assume "a * 2 ^ s \<le> x"
  then have "a \<le> x div 2 ^ s"
    by (simp add: less_eq_div_iff_mult_less_eq)
  then have 1: "a * 2 ^ s \<le> (x div 2 ^ s) * 2 ^ s"
    by (rule mult_le_mono1)
  then have 2: "a * 2 ^ s \<le> (x div 2 ^ s + 1) * 2 ^ s"
    by (simp only: add_mult_distrib)
  show ?thesis
    unfolding round_to_def Let_def using 1 2 by (simp only: split: if_split) blast
qed

lemma round_to_near: "2 * round_to s x \<le> 2 * x + 2 ^ s"
proof -
  define q where "q = x div 2 ^ s"
  define r where "r = x mod 2 ^ s"
  define p where "p = (2::nat) ^ s"
  have x: "x = q * p + r"
    unfolding q_def r_def p_def by (rule div_mult_mod_eq [symmetric])
  have "2 * (if 2 * r < p \<or> (2 * r = p \<and> even q) then q * p else (q + 1) * p) \<le> 2 * x + p"
    unfolding x by (auto simp: algebra_simps)
  then show ?thesis
    unfolding round_to_def Let_def q_def r_def p_def .
qed

lemma round_to_up:
  assumes "x + j = a * 2 ^ s" "2 * j < 2 ^ s"
  shows "round_to s x = a * 2 ^ s"
proof (cases "j = 0")
  case True
  with assms have "x = a * 2 ^ s" by simp
  then show ?thesis by (simp add: round_to_def)
next
  case False
  from assms False obtain b where a: "a = Suc b"
    by (cases a) auto
  have x: "x = b * 2 ^ s + (2 ^ s - j)"
    using assms a by (simp add: algebra_simps) 
  have lt: "2 ^ s - j < (2::nat) ^ s" using False assms(2) by simp
  have q: "x div 2 ^ s = b" using x lt by simp
  have r: "x mod 2 ^ s = 2 ^ s - j" using x lt by simp
  have "\<not> 2 * (2 ^ s - j) \<le> (2::nat) ^ s" using assms(2) by simp
  then show ?thesis
    using a by (auto simp: round_to_def q r)
qed

lemma shift_facts:
  assumes "x < 2 ^ 84"
  defines "s \<equiv> bit_length x - 53"
  shows "s \<le> 31" "x < 2 ^ s * 2 ^ 53" "(2::nat) ^ 53 = 2 ^ (53 - s) * 2 ^ s"
proof -
  have "bit_length x \<le> 84" using assms(1) by (rule bit_length_le)
  then show s: "s \<le> 31" by (simp add: s_def)
  have "bit_length x \<le> s + 53" by (simp add: s_def)
  then have "(2::nat) ^ bit_length x \<le> 2 ^ (s + 53)"
    by (rule power_increasing) simp
  with bit_length_upper [of x] show "x < 2 ^ s * 2 ^ 53"
    by (simp add: power_add)
  from s show "(2::nat) ^ 53 = 2 ^ (53 - s) * 2 ^ s"
    by (simp flip: power_add)
qed

lemma int_times_06_eq:
  assumes n: "n < 2 ^ 31"
  shows "int_times_06 n = max_long_window (int n)"
proof -
  define x where "x = n * m_06"
  define s where "s = bit_length x - 53"
  define p where "p = (2::nat) ^ s"
  define c where "c = (2::nat) ^ (53 - s)"
  define K where "K = (2::nat) ^ 53"
  define k where "k = (3 * n) div 5"
  define y where "y = round_to s x"
  have Kv: "K = 9007199254740992" by (simp add: K_def)
  have n': "n < 2147483648" using n by simp
  have x84: "x < 2 ^ 84"
  proof -
    have "x < 2 ^ 31 * 2 ^ 53"
      unfolding x_def m_06_def using n' by simp
    then show ?thesis by (simp flip: power_add)
  qed
  have s31: "s \<le> 31" and xp: "x < p * K" and Kc: "K = c * p"
    using shift_facts [OF x84] by (simp_all add: s_def p_def K_def c_def)
  have p31: "p \<le> 2147483648"
  proof -
    have "p \<le> 2 ^ 31" unfolding p_def using s31 by (intro power_increasing) simp_all
    then show ?thesis by simp
  qed
  have x5: "5 * x + n = 3 * n * K"
    by (simp add: x_def m_06_def Kv)
  have kK: "k * K = (k * c) * p" by (simp add: Kc)
  have lo: "k * K \<le> y \<and> y < (k + 1) * K"
  proof (cases "(3 * n) mod 5 = 0")
    case True
    then have "\<exists>j. n = 5 * j" by presburger
    then obtain j where j: "n = 5 * j" ..
    then have k3: "k = 3 * j" by (simp add: k_def)
    have xjK: "x + j = 3 * j * K"
      using x5 j by (simp add: Kv)
    then have "x + j = k * K" by (simp only: k3)
    also note kK
    finally have xj: "x + j = (k * c) * p" .
    have "2 * j < p"
    proof (rule ccontr)
      assume "\<not> 2 * j < p"
      then have "p \<le> 2 * j" by simp
      then have "p * K \<le> 2 * j * K" by (rule mult_le_mono1)
      with xp have "x < 2 * j * K" by (rule less_le_trans)
      with xjK show False by (simp add: Kv)
    qed
    then have "y = (k * c) * p"
      unfolding y_def p_def by (intro round_to_up [OF xj [unfolded p_def]])
    then have "y = k * K" by (simp only: kK)
    then show ?thesis by (simp add: Kv)
  next
    case False
    then have rho: "1 \<le> (3 * n) mod 5" "(3 * n) mod 5 \<le> 4" by simp_all
    have n3: "3 * n = 5 * k + (3 * n) mod 5"
      by (simp add: k_def)
    define r where "r = (3 * n) mod 5"
    define A where "A = k * K"
    define B where "B = r * K"
    have "3 * n * K = (5 * k + r) * K"
      using n3 by (simp only: r_def)
    also have "\<dots> = 5 * A + B"
      by (simp add: A_def B_def algebra_simps)
    finally have x5': "5 * x + n = 5 * A + B"
      using x5 by simp
    have "1 * K \<le> r * K" "r * K \<le> 4 * K"
      using rho unfolding r_def by (intro mult_le_mono1; simp)+
    then have rK: "K \<le> B" "B \<le> 4 * K"
      by (simp_all add: B_def)
    have xl: "k * K \<le> x"
      unfolding A_def [symmetric] using x5' rK n' Kv by linarith
    have xu: "5 * x \<le> 5 * A + 4 * K"
      using x5' rK by linarith
    have "(k * c) * p \<le> round_to s x"
      unfolding p_def by (rule round_to_lower) (use xl in \<open>simp only: kK p_def\<close>)
    then have 1: "k * K \<le> y" by (simp only: y_def kK)
    have "2 * y \<le> 2 * x + p"
      unfolding y_def p_def by (rule round_to_near)
    then have "10 * y \<le> 10 * A + 8 * K + 5 * p" using xu by linarith
    then have "y < A + K" using p31 Kv by linarith
    then have "y < (k + 1) * K" by (simp add: A_def)
    with 1 show ?thesis by simp
  qed
  then have "y div K = k"
    by (intro div_nat_eqI) (simp_all add: mult.commute)
  then have "int_times_06 n = int k"
    by (simp add: int_times_06_def round53_def y_def s_def x_def K_def)
  also have "int k = max_long_window (int n)"
    by (simp add: max_long_window_div k_def zdiv_int)
  finally show ?thesis .
qed

subsection \<open>Order of the two windows\<close>

text \<open>
  Claim C1, as amended. For a series of length \<open>N \<ge> 60\<close> the long window is at least the
  short window exactly when \<open>N\<close> is not one of 200, ..., 209. For those ten lengths the
  short window is already 200 while the long window is clamped to \<open>N - 10\<close>.
\<close>

theorem long_window_ge_ma_window_iff:
  "60 \<le> n \<Longrightarrow> (ma_window n \<le> long_window (ma_window n) n) = (n < 200 \<or> 210 \<le> n)"
  by (simp add: long_window_def ma_window_def max_long_window_div Let_def) arith

theorem long_window_ge_ma_window_iff_witness:
  "60 \<le> (1000::int) \<and> ma_window 1000 \<le> long_window (ma_window 1000) 1000"
  using long_window_ge_ma_window_iff [of 1000] by simp

theorem long_window_lt_ma_window_200:
  "60 \<le> (200::int) \<and> \<not> ma_window 200 \<le> long_window (ma_window 200) 200"
  by (simp add: long_window_def ma_window_def max_long_window_div Let_def)

section \<open>Properties of the classifier\<close>

lemmas thresholds = t_073_def t_120_def t_150_def t_30_def t_45_def t_65_def

lemma header_band_cases:
  "market_status (header_status (Fin v)) =
     (if v < t_073 then Diamond else if v < t_120 then Gold else if v < t_150 then Normal
      else if v < t_30 then Stop else if v < t_45 then Reduce else if v < t_65 then Clear
      else Escape)"
  by (simp add: header_status_def)

text \<open>
  Claim C4. For every finite value \<open>v \<ge> 0\<close> the band chosen by the ascending threshold
  chain is the one and only band of the table whose interval contains \<open>v\<close>; the value
  \<open>0.73\<close> itself is classified into the second band and \<open>6.5\<close> into the top band.
\<close>

theorem classifier_exactly_one_band:
  "(0 \<le> v \<longrightarrow> (\<forall>b. spec_in_band v b = (market_status (header_status (Fin v)) = b)))
   \<and> market_status (header_status (Fin t_073)) = Gold
   \<and> market_status (header_status (Fin t_65)) = Escape"
proof (intro conjI impI allI)
  fix b
  assume "0 \<le> v"
  then show "spec_in_band v b = (market_status (header_status (Fin v)) = b)"
    by (cases b) (auto simp: header_band_cases spec_in_band_def thresholds)
qed (simp_all add: header_band_cases thresholds)

theorem classifier_exactly_one_band_witness:
  "(0::real) \<le> 2 \<and> spec_in_band 2 Stop \<and> \<not> spec_in_band 2 Normal
   \<and> market_status (header_status (Fin 2)) = Stop"
  using classifier_exactly_one_band [of 2]
  by (simp add: header_band_cases thresholds)

text \<open>
  Claim C10. For every finite latest value exactly one row of the strategy table carries
  the class \<open>current-row\<close>, and that row shows the band and the colour of the header.
\<close>

theorem current_row_agrees_with_header:
  "current_rows (Fin v) =
     [(True, market_status (header_status (Fin v)), status_color (header_status (Fin v)))]"
  by (simp add: current_rows_def strategy_rows_def header_status_def thresholds)

section \<open>Properties of the Series Acquirer\<close>

subsection \<open>Deduplication\<close>

lemma select_Nil [simp]: "select [] xs = []" "select ks [] = []"
  by (simp_all add: select_def)

lemma select_Cons [simp]:
  "select (k # ks) (x # xs) = (if k then x # select ks xs else select ks xs)"
  by (simp add: select_def)

lemma duplicated_from_set:
  "set seen = set seen' \<Longrightarrow> duplicated_from seen ks = duplicated_from seen' ks"
  by (induction ks arbitrary: seen seen') auto

lemma duplicated_from_seen:
  "k \<in> set seen \<Longrightarrow> duplicated_from (k # seen) ks = duplicated_from seen ks"
  by (rule duplicated_from_set) auto

lemma first_rows_simps [simp]:
  "first_rows seen [] = []"
  "first_rows seen (r # rs) =
     (if open_time r \<in> set seen then first_rows seen rs
      else r # first_rows (open_time r # seen) rs)"
  by (simp_all add: first_rows_def duplicated_from_seen)








subsection \<open>The pagination loop\<close>

lemma fetch_loop_error: "api s = Inl e \<Longrightarrow> fetch_loop api s acc = Some (Inl e)"
  by (subst fetch_loop.simps) simp

lemma fetch_loop_empty: "api s = Inr [] \<Longrightarrow> fetch_loop api s acc = Some (Inr acc)"
  by (subst fetch_loop.simps) simp

lemma fetch_loop_short:
  "api s = Inr data \<Longrightarrow> data \<noteq> [] \<Longrightarrow> length data < 1000 \<Longrightarrow>
     fetch_loop api s acc = Some (Inr (acc @ data))"
  by (subst fetch_loop.simps) simp

lemma fetch_loop_full:
  "api s = Inr data \<Longrightarrow> 1000 \<le> length data \<Longrightarrow>
     fetch_loop api s acc = fetch_loop api (open_time (last data) + 1) (acc @ data)"
  by (subst fetch_loop.simps) auto

lemma fetch_loop_request_error:
  "request_cursor api s k = Some c \<Longrightarrow> api c = Inl e \<Longrightarrow> fetch_loop api s acc = Some (Inl e)"
proof (induction k arbitrary: s acc)
  case 0
  then show ?case by (simp add: fetch_loop_error)
next
  case (Suc k)
  from Suc.prems(1) obtain data where d: "api s = Inr data" "1000 \<le> length data"
    and c: "request_cursor api (open_time (last data) + 1) k = Some c"
    by (auto split: sum.splits if_splits)
  from Suc.IH [OF c Suc.prems(2)] d show ?case
    by (simp add: fetch_loop_full)
qed

subsection \<open>The example upstreams\<close>


lemma last_page1: "last page1 = bar (day 999) 100"
  by (simp add: page1_def last_map)

lemma day_inj: "(day i = day j) = (i = j)"
  by (simp add: day_def)

lemma length_page1: "length page1 = 1000"
  by (simp add: page1_def)




lemma failing_second_request:
  "request_cursor failing_api inception (Suc 0) = Some (day 999 + 1)"
proof -
  have "page1 \<noteq> []"
    using length_page1 by auto
  then show ?thesis
    by (simp add: failing_api_def length_page1 last_page1 bar_def)
qed

subsection \<open>Ordering and uniqueness of the series\<close>






subsection \<open>Failure of a request\<close>

text \<open>
  Claim C7. If any request that the loop makes fails, the Acquirer returns the sentinel
  whatever it has accumulated, and the program reports the failure on the console and
  ends with the files as they were.
\<close>

theorem request_error_no_report:
  "request_cursor api inception k = Some c \<Longrightarrow> api c = Inl e \<Longrightarrow>
     fetch_eth_klines api = Some None
     \<and> (\<exists>w'. main api w = Some (w', None) \<and> files w' = files w
           \<and> MsgFetchFailed \<in> set (console w'))"
proof -
  assume "request_cursor api inception k = Some c" and "api c = Inl e"
  then have "fetch_loop api inception [] = Some (Inl e)"
    by (rule fetch_loop_request_error)
  then have f: "fetch_eth_klines api = Some None"
    by (simp add: fetch_eth_klines_def)
  then have m: "main api w = Some (print MsgFetchFailed (print MsgStart w), None)"
    by (simp add: main_def)
  have "files (print MsgFetchFailed (print MsgStart w)) = files w"
    by (simp add: print_def)
  moreover have "MsgFetchFailed \<in> set (console (print MsgFetchFailed (print MsgStart w)))"
    by (simp add: print_def)
  ultimately show ?thesis using f m by blast
qed

theorem request_error_no_report_witness:
  "request_cursor failing_api inception (Suc 0) = Some (day 999 + 1)
   \<and> failing_api (day 999 + 1) = Inl RequestError
   \<and> fetch_eth_klines failing_api = Some None
   \<and> (\<exists>w'. main failing_api \<lparr>files = Map.empty, console = []\<rparr> = Some (w', None)
         \<and> files w' = Map.empty \<and> MsgFetchFailed \<in> set (console w'))"
proof -
  have 2: "failing_api (day 999 + 1) = Inl RequestError"
    by (simp add: failing_api_def day_def)
  from request_error_no_report [OF failing_second_request 2,
      of "\<lparr>files = Map.empty, console = []\<rparr>"] failing_second_request 2
  show ?thesis by simp
qed

section \<open>Properties of the Indicator Engine\<close>

subsection \<open>The run of \<open>calculate_ehr999\<close>\<close>

lemma bindS_simps:
  "m s = (s', Inl e) \<Longrightarrow> bindS m f s = (s', Inl e)"
  "m s = (s', Inr x) \<Longrightarrow> bindS m f s = f x s'"
  by (simp_all add: bindS_def)

lemma ma_window_nonneg [simp]: "\<not> ma_window (int n) < 0"
  by (simp add: ma_window_def pos_imp_zdiv_nonneg_iff not_less)

lemma calculate_ehr999_run:
  "calculate_ehr999 a s =
     (if lw_of (s ! a) < 0 then (s @ [with_MA200 (s ! a)], Inl ValueError)
      else (s @ [with_EHR999 (s ! a), select_rows (map notna (ehr_values (s ! a))) (with_EHR999 (s ! a))],
            Inr (Suc (length s))))"
  by (simp add: calculate_ehr999_def bindS_def copy_def read_frame_def new_frame_def assign_def
      set_MA200_def set_MA_long_def set_EHR999_def dropna_def raiseS_def rolling_mean_def
      Let_def with_MA200_def with_MA_long_def with_EHR999_def ehr_values_def
      lw_of_def len_def close_column_def nth_append)

lemma len_DataFrame [simp]: "len (DataFrame rows) = length rows"
  by (simp add: len_def DataFrame_def)

lemma lw_of_small: "length rows < 10 \<Longrightarrow> lw_of (DataFrame rows) < 0"
  by (simp add: lw_of_def long_window_def ma_window_def max_long_window_div Let_def) 

subsection \<open>The input frame\<close>

text \<open>
  Claim C9. The call leaves every frame that existed before it as it was, the input
  frame among them, whether it returns or raises: the columns are assigned to the copy.
\<close>

theorem calculate_ehr999_preserves_input:
  "a < length s \<Longrightarrow>
     fst (calculate_ehr999 a s) ! a = s ! a \<and> take (length s) (fst (calculate_ehr999 a s)) = s"
  by (simp add: calculate_ehr999_run nth_append)

theorem calculate_ehr999_preserves_input_witness:
  "(0::nat) < length [five_bars] \<and> fst (calculate_ehr999 0 [five_bars]) ! 0 = five_bars"
  using calculate_ehr999_preserves_input [of 0 "[five_bars]"] by simp

subsection \<open>Selection of rows\<close>


lemma select_map_self: "select (map P ys) ys = filter P ys"
  by (induction ys) (simp_all add: select_def)






lemma DataFrame_sel [simp]:
  "index (DataFrame rows) = [0..<length rows]" "klines (DataFrame rows) = rows"
  "MA200 (DataFrame rows) = None" "MA_long (DataFrame rows) = None"
  "EHR999 (DataFrame rows) = None"
  by (simp_all add: DataFrame_def)

lemma length_ehr_values [simp]: "length (ehr_values f) = length (klines f)"
  by (simp add: ehr_values_def ehr999_column_def close_column_def)

lemma ehr_values_nth:
  "i < length (klines f) \<Longrightarrow>
     ehr_values f ! i =
       fl_mul (fl_div (Fin (close_column f ! i))
                 (trailing_mean (nat (ma_window (int (len f)))) (close_column f) i))
              (fl_div (Fin (close_column f ! i))
                 (trailing_mean (nat (lw_of f)) (close_column f) i))"
  by (simp add: ehr_values_def ehr999_column_def close_column_def)



lemma with_EHR999_sel [simp]:
  "index (with_EHR999 f) = index f" "klines (with_EHR999 f) = klines f"
  "EHR999 (with_EHR999 f) = Some (ehr_values f)"
  by (simp_all add: with_EHR999_def with_MA_long_def with_MA200_def)


subsection \<open>Short series\<close>

text \<open>
  Claim C2, at its input: for a series of five bars the long window is \<open>-5\<close>, and
  building the rolling object raises \<open>ValueError\<close>; no frame is returned.
\<close>

theorem five_bars_raises: "snd (calculate_ehr999 0 [five_bars]) = Inl ValueError"
  by (simp add: calculate_ehr999_run five_bars_def lw_of_small)

text \<open>
  The same holds for every series of fewer than ten bars (lemma \<open>lw_of_small\<close>); with
  ten bars the long window is zero, no average is defined and the output is empty. The
  program does not catch the exception: on an upstream with five bars it ends with
  \<open>ValueError\<close> after its first message.
\<close>

lemma lw_of_ten: "length rows = 10 \<Longrightarrow> lw_of (DataFrame rows) = 0"
  by (simp add: lw_of_def long_window_def ma_window_def max_long_window_div Let_def)

lemma fl_mul_NaN [simp]: "fl_mul x NaN = NaN"
  by (cases x) simp_all

lemma fl_div_NaN [simp]: "fl_div x NaN = NaN"
  by (cases x) simp_all

lemma select_none: "select (replicate n False) xs = []"
proof (induction xs arbitrary: n)
  case Nil
  then show ?case by simp
next
  case (Cons x xs)
  then show ?case by (cases n) simp_all
qed

lemma ten_bars_empty:
  assumes "length rows = 10"
  shows "\<exists>s'. calculate_ehr999 0 [DataFrame rows] = (s', Inr 2) \<and> index (s' ! 2) = []"
proof -
  let ?f = "DataFrame rows"
  have lw: "lw_of ?f = 0" using assms by (rule lw_of_ten)
  have "\<forall>i < length rows. ehr_values ?f ! i = NaN"
    by (simp add: ehr_values_nth lw trailing_mean_def)
  then have "map notna (ehr_values ?f) = replicate (length rows) False"
    by (auto simp: list_eq_iff_nth_eq notna_def)
  then show ?thesis
    using lw by (simp add: calculate_ehr999_run select_rows_def select_none del: upt_Suc)
qed

lemma first_rows_distinct_id:
  "distinct (map open_time rs) \<Longrightarrow> set (map open_time rs) \<inter> set seen = {} \<Longrightarrow>
     first_rows seen rs = rs"
  by (induction rs arbitrary: seen) auto

lemma five_bar_main:
  "main five_bar_api w = Some (print MsgStart w, Some ValueError)"
proof -
  let ?rows = "map (\<lambda>i. bar (day i) 100) [0..<5]"
  have l: "fetch_loop five_bar_api inception [] = Some (Inr ?rows)"
    by (simp add: five_bar_api_def fetch_loop_short del: upt_Suc)
  have "distinct (map open_time ?rows)"
    by (simp add: distinct_map comp_def bar_def inj_on_def day_inj del: upt_Suc)
  then have d: "first_rows [] ?rows = ?rows"
    by (rule first_rows_distinct_id) simp
  have "reset_index (drop_duplicates (DataFrame ?rows)) = DataFrame (first_rows [] ?rows)"
    by (simp add: reset_index_def drop_duplicates_def DataFrame_def select_rows_def
        first_rows_def duplicated_def del: upt_Suc)
  then have f: "fetch_eth_klines five_bar_api = Some (Some five_bars)"
    using l d by (simp add: fetch_eth_klines_def five_bars_def del: upt_Suc)
  have "calculate_ehr999 0 [five_bars] = ([five_bars, with_MA200 five_bars], Inl ValueError)"
    by (simp add: calculate_ehr999_run five_bars_def lw_of_small)
  then show ?thesis using f by (simp add: main_def)
qed

subsection \<open>Finite values only\<close>







subsection \<open>Constant price\<close>

lemma sum_list_const:
  "\<forall>y \<in> set ys. y = (c::real) \<Longrightarrow> sum_list ys = real (length ys) * c"
  by (induction ys) (auto simp: algebra_simps)

lemma trailing_mean_const:
  assumes "\<forall>x \<in> set xs. x = c" "i < length xs"
  shows "trailing_mean w xs i = NaN \<or> trailing_mean w xs i = Fin c"
proof (cases "w = 0 \<or> i + 1 < w")
  case True
  then show ?thesis by (simp add: trailing_mean_def)
next
  case False
  let ?ys = "take w (drop (i + 1 - w) xs)"
  have "\<forall>y \<in> set ?ys. y = c"
    using assms(1) by (meson in_set_dropD in_set_takeD)
  then have "sum_list ?ys = real (length ?ys) * c" by (rule sum_list_const)
  moreover have "length ?ys = w" using False assms(2) by simp
  ultimately show ?thesis using False by (simp add: trailing_mean_def)
qed

lemma trailing_mean_defined:
  "0 < w \<Longrightarrow> w \<le> i + 1 \<Longrightarrow> trailing_mean w xs i \<noteq> NaN"
  by (simp add: trailing_mean_def)

lemma value_const:
  assumes "m1 = NaN \<or> m1 = Fin c" "m2 = NaN \<or> m2 = Fin c"
    and "notna (fl_mul (fl_div (Fin c) m1) (fl_div (Fin c) m2))"
  shows "fl_mul (fl_div (Fin c) m1) (fl_div (Fin c) m2) = Fin 1 \<and> m1 = Fin c \<and> m2 = Fin c"
  using assms by (auto simp: notna_def split: if_splits)

lemma in_set_select:
  "x \<in> set (select ks xs) \<Longrightarrow> \<exists>i. i < length xs \<and> i < length ks \<and> ks ! i \<and> x = xs ! i"
  by (auto simp: select_def set_zip)

lemma long_window_bounds:
  "250 \<le> n \<Longrightarrow> 0 < long_window (ma_window n) n \<and> long_window (ma_window n) n \<le> n"
  by (simp add: long_window_def ma_window_def max_long_window_div Let_def) arith

lemma with_EHR999_MA [simp]:
  "MA200 (with_EHR999 f) =
     Some (map (trailing_mean (nat (ma_window (int (len f)))) (close_column f))
             [0..<length (klines f)])"
  "MA_long (with_EHR999 f) =
     Some (map (trailing_mean (nat (lw_of f)) (close_column f)) [0..<length (klines f)])"
  by (simp_all add: with_EHR999_def with_MA_long_def with_MA200_def)

lemma ehr_values_const:
  assumes c: "\<forall>r \<in> set (klines f). close r = P" and i: "i < length (klines f)"
    and v: "notna (ehr_values f ! i)"
  shows "ehr_values f ! i = Fin 1
     \<and> trailing_mean (nat (ma_window (int (len f)))) (close_column f) i = Fin P
     \<and> trailing_mean (nat (lw_of f)) (close_column f) i = Fin P"
proof -
  let ?cl = "close_column f"
  have c': "\<forall>x \<in> set ?cl. x = P" using c by (auto simp: close_column_def)
  have l: "i < length ?cl" using i by (simp add: close_column_def)
  then have ci: "?cl ! i = P" using c' by auto
  show ?thesis
    using value_const [OF trailing_mean_const [OF c' l] trailing_mean_const [OF c' l]]
      v i by (simp add: ehr_values_nth ci)
qed

text \<open>
  Claim C8. For a series of at least 250 bars that all close at \<open>P\<close> the Engine returns;
  in its output both moving averages are \<open>P\<close> and the value is 1 at every row, and
  there are such rows unless \<open>P\<close> is zero.
\<close>

theorem constant_series_value_one:
  assumes c: "\<forall>r \<in> set rows. close r = P" and n: "250 \<le> length rows"
    and a: "a < length s" and f: "s ! a = DataFrame rows"
  shows "\<exists>s' out m200 mlong vs.
       calculate_ehr999 a s = (s', Inr out)
     \<and> MA200 (s' ! out) = Some m200 \<and> MA_long (s' ! out) = Some mlong
     \<and> EHR999 (s' ! out) = Some vs
     \<and> (\<forall>m \<in> set m200. m = Fin P) \<and> (\<forall>m \<in> set mlong. m = Fin P)
     \<and> (\<forall>v \<in> set vs. v = Fin 1)
     \<and> (P \<noteq> 0 \<longrightarrow> vs \<noteq> [])"
proof -
  let ?f = "DataFrame rows"
  let ?n = "length rows"
  let ?e = "ehr_values ?f"
  let ?k = "map notna ?e"
  let ?w1 = "nat (ma_window (int ?n))"
  let ?w2 = "nat (lw_of ?f)"
  let ?cl = "close_column ?f"
  let ?c1 = "map (trailing_mean ?w1 ?cl) [0..<?n]"
  let ?c2 = "map (trailing_mean ?w2 ?cl) [0..<?n]"
  let ?s' = "s @ [with_EHR999 ?f, select_rows ?k (with_EHR999 ?f)]"
  let ?out = "Suc (length s)"
  have lw: "0 < lw_of ?f" "lw_of ?f \<le> int ?n"
    using long_window_bounds [of "int ?n"] n by (simp_all add: lw_of_def)
  have mw: "ma_window (int ?n) = 200"
    using n by (simp add: ma_window_def)
  have run: "calculate_ehr999 a s = (?s', Inr ?out)"
    using lw by (simp add: calculate_ehr999_run f)
  have o: "?s' ! ?out = select_rows ?k (with_EHR999 ?f)"
    by (simp add: nth_append)
  have const: "\<And>i. i < ?n \<Longrightarrow> notna (?e ! i) \<Longrightarrow>
      ?e ! i = Fin 1 \<and> trailing_mean ?w1 ?cl i = Fin P \<and> trailing_mean ?w2 ?cl i = Fin P"
    using ehr_values_const [of ?f P] c by simp
  have 1: "MA200 (?s' ! ?out) = Some (select ?k ?c1)"
    unfolding o by (simp add: select_rows_def)
  have 2: "MA_long (?s' ! ?out) = Some (select ?k ?c2)"
    unfolding o by (simp add: select_rows_def)
  have 3: "EHR999 (?s' ! ?out) = Some (filter notna ?e)"
    unfolding o by (simp add: select_rows_def select_map_self)
  have 4: "\<forall>m \<in> set (select ?k ?c1). m = Fin P"
    using const by (auto dest!: in_set_select)
  have 5: "\<forall>m \<in> set (select ?k ?c2). m = Fin P"
    using const by (auto dest!: in_set_select)
  have 6: "\<forall>v \<in> set (filter notna ?e). v = Fin 1"
    using const by (auto simp: in_set_conv_nth)
  have 7: "P \<noteq> 0 \<longrightarrow> filter notna ?e \<noteq> []"
  proof
    assume P: "P \<noteq> 0"
    let ?i = "?n - 1"
    have i: "?i < ?n" using n by simp
    have cl: "\<forall>x \<in> set ?cl. x = P" "?i < length ?cl"
      using c i by (auto simp: close_column_def)
    have "trailing_mean ?w1 ?cl ?i \<noteq> NaN"
      using n mw by (intro trailing_mean_defined) simp_all
    then have m1: "trailing_mean ?w1 ?cl ?i = Fin P"
      using trailing_mean_const [OF cl, of ?w1] by simp
    have "trailing_mean ?w2 ?cl ?i \<noteq> NaN"
      using n lw by (intro trailing_mean_defined) simp_all
    then have m2: "trailing_mean ?w2 ?cl ?i = Fin P"
      using trailing_mean_const [OF cl, of ?w2] by simp
    have "?cl ! ?i = P" using cl by auto
    then have "?e ! ?i = Fin 1"
      using i P m1 m2 by (simp add: ehr_values_nth)
    then have "notna (?e ! ?i)" by (simp add: notna_def)
    moreover have "?e ! ?i \<in> set ?e" using i by (intro nth_mem) simp
    ultimately have "?e ! ?i \<in> set (filter notna ?e)" by simp
    then show "filter notna ?e \<noteq> []" by (metis empty_iff empty_set)
  qed
  from run 1 2 3 4 5 6 7 show ?thesis by blast
qed

theorem constant_series_value_one_witness:
  "list_all (\<lambda>r. close r = 2000) constant_bars \<and> 250 \<le> length constant_bars
   \<and> (\<exists>s' out vs. calculate_ehr999 0 [DataFrame constant_bars] = (s', Inr out)
         \<and> EHR999 (s' ! out) = Some vs \<and> vs \<noteq> [] \<and> list_all (\<lambda>v. v = Fin 1) vs)"
proof -
  have c: "\<forall>r \<in> set constant_bars. close r = 2000"
    by (auto simp: constant_bars_def bar_def)
  have n: "250 \<le> length constant_bars"
    by (simp add: constant_bars_def)
  have a: "0 < length [DataFrame constant_bars]" by simp
  have f: "[DataFrame constant_bars] ! 0 = DataFrame constant_bars" by simp
  from constant_series_value_one [OF c n a f] c n show ?thesis
    unfolding list_all_iff by fastforce
qed

end
